theory Spec2Isabelle
  imports Main
begin

section \<open>Python values used by the notebook\<close>

text \<open>
  The program is the code of \<^verbatim>\<open>memory_enhanced_conversational_agent.ipynb\<close>: two
  module-level dictionaries, \<^verbatim>\<open>chat_store\<close> and \<^verbatim>\<open>long_term_memory\<close>, and the
  functions \<^verbatim>\<open>get_chat_history\<close>, \<^verbatim>\<open>update_long_term_memory\<close>,
  \<^verbatim>\<open>get_long_term_memory\<close> and \<^verbatim>\<open>chat\<close>.

  A Python \<^verbatim>\<open>str\<close> is a sequence of Unicode code points and \<^verbatim>\<open>len\<close> counts
  code points, so a string is a list of code points here (a HOL \<^typ>\<open>char\<close> is a byte and
  could not hold every character). \<open>str_of\<close> embeds an ASCII literal of the source.
\<close>

type_synonym codepoint = nat
type_synonym str = "codepoint list"

definition str_of :: "string \<Rightarrow> str" where
  "str_of cs = map of_char cs"

text \<open>
  \<^verbatim>\<open>sep.join(xs)\<close> for a list of strings: the elements in order, \<^verbatim>\<open>sep\<close> between each
  two neighbours, the empty string for the empty list.
\<close>

fun join_str :: "str \<Rightarrow> str list \<Rightarrow> str" where
  "join_str sep [] = []"
| "join_str sep [x] = x"
| "join_str sep (x # y # ys) = x @ sep @ join_str sep (y # ys)"

text \<open>
  \<^verbatim>\<open>xs[i:]\<close> for any integer \<^verbatim>\<open>i\<close>: a negative start counts from the end, and the
  start is clamped to the list, so the slice never raises.
\<close>

definition slice_from :: "int \<Rightarrow> 'a list \<Rightarrow> 'a list" where
  "slice_from i xs =
     (let n = int (length xs);
          start = (if i < 0 then max (n + i) 0 else min i n)
      in drop (nat start) xs)"

text \<open>
  The only exception the three memory functions could raise is the \<^verbatim>\<open>KeyError\<close> of
  a dictionary subscript \<^verbatim>\<open>d[k]\<close> on a missing key. The notebook defines no exception
  class of its own and has no \<^verbatim>\<open>raise\<close> statement.
\<close>

datatype error = KeyError str

definition getitem :: "(str \<rightharpoonup> 'v) \<Rightarrow> str \<Rightarrow> error + 'v" where
  "getitem d k = (case d k of None \<Rightarrow> Inl (KeyError k) | Some v \<Rightarrow> Inr v)"

definition and_then :: "error + 'a \<Rightarrow> ('a \<Rightarrow> error + 'b) \<Rightarrow> error + 'b" where
  "and_then r f = (case r of Inl e \<Rightarrow> Inl e | Inr v \<Rightarrow> f v)"

section \<open>The memory stores\<close>

text \<open>
  \<^verbatim>\<open>chat_store\<close> maps a session id to a \<^verbatim>\<open>ChatMessageHistory\<close> object. The object is
  handed out to callers and mutated through the reference, so the model keeps an explicit
  store: \<open>chat_store\<close> holds references, \<open>histories\<close> gives the \<^verbatim>\<open>messages\<close> list of
  the object at a reference, and \<open>next_ref\<close> is the next unused reference (objects are
  never freed while the dictionary holds them).
  \<^verbatim>\<open>long_term_memory\<close> maps a session id to a list of strings; these lists are never
  handed out, so they are stored in the dictionary directly.
\<close>

type_synonym ref = nat

datatype message = HumanMessage str | AIMessage str

record state =
  chat_store :: "str \<rightharpoonup> ref"
  long_term_memory :: "str \<rightharpoonup> str list"
  histories :: "ref \<Rightarrow> message list"
  next_ref :: ref

text \<open>\<^verbatim>\<open>chat_store = {}\<close>, \<^verbatim>\<open>long_term_memory = {}\<close>, and no object allocated yet.\<close>

definition initial_state :: state where
  "initial_state =
     \<lparr>chat_store = Map.empty, long_term_memory = Map.empty,
      histories = (\<lambda>_. []), next_ref = 0\<rparr>"

text \<open>
  \<^verbatim>\<open>
  def get_chat_history(session_id: str):
      if session_id not in chat_store:
          chat_store[session_id] = ChatMessageHistory()
      return chat_store[session_id]
  \<close>
  \<^verbatim>\<open>ChatMessageHistory()\<close> allocates a new object with an empty message list.
\<close>

definition get_chat_history :: "str \<Rightarrow> state \<Rightarrow> error + (ref \<times> state)" where
  "get_chat_history session_id s =
     (let s1 = (if chat_store s session_id = None
                then s\<lparr>chat_store := (chat_store s)(session_id \<mapsto> next_ref s),
                       histories := (histories s)(next_ref s := []),
                       next_ref := Suc (next_ref s)\<rparr>
                else s)
      in and_then (getitem (chat_store s1) session_id) (\<lambda>h. Inr (h, s1)))"

text \<open>
  \<^verbatim>\<open>
  def update_long_term_memory(session_id: str, input: str, output: str):
      if session_id not in long_term_memory:
          long_term_memory[session_id] = []
      if len(input) > 20:
          long_term_memory[session_id].append(f"User said: {input}")
      if len(long_term_memory[session_id]) > 5:
          long_term_memory[session_id] = long_term_memory[session_id][-5:]
  \<close>
  The three statements run one after the other on the dictionary; every subscript is a
  lookup that may raise.
\<close>

definition update_long_term_memory :: "str \<Rightarrow> str \<Rightarrow> str \<Rightarrow> state \<Rightarrow> error + state" where
  "update_long_term_memory session_id input output s =
     (let m1 = (if long_term_memory s session_id = None
                then (long_term_memory s)(session_id \<mapsto> [])
                else long_term_memory s)
      in and_then
           (if length input > 20
            then and_then (getitem m1 session_id)
                   (\<lambda>xs. Inr (m1(session_id \<mapsto> xs @ [str_of ''User said: '' @ input])))
            else Inr m1)
           (\<lambda>m2. and_then (getitem m2 session_id)
              (\<lambda>xs. and_then
                 (if length xs > 5
                  then and_then (getitem m2 session_id)
                         (\<lambda>ys. Inr (m2(session_id \<mapsto> slice_from (- 5) ys)))
                  else Inr m2)
                 (\<lambda>m3. Inr (s\<lparr>long_term_memory := m3\<rparr>)))))"

text \<open>
  \<^verbatim>\<open>
  def get_long_term_memory(session_id: str):
      return ". ".join(long_term_memory.get(session_id, []))
  \<close>
  The state is returned next to the string so that what the call does to the stores can
  be stated.
\<close>

definition get_long_term_memory :: "str \<Rightarrow> state \<Rightarrow> error + (str \<times> state)" where
  "get_long_term_memory session_id s =
     Inr (join_str (str_of ''. '')
            (case long_term_memory s session_id of None \<Rightarrow> [] | Some xs \<Rightarrow> xs), s)"

section \<open>The chat function\<close>

text \<open>
  The language model is an external collaborator: a parameter \<open>llm\<close> that maps the
  long-term memory string, the history and the input to the response text of a call that
  returns.

  \<^verbatim>\<open>chain_with_history\<close> is LangChain's \<^verbatim>\<open>RunnableWithMessageHistory\<close> around
  \<^verbatim>\<open>prompt | llm\<close> with \<^verbatim>\<open>get_chat_history\<close> as its session-history factory:
  \<^verbatim>\<open>invoke\<close> fetches the session's history object with \<^verbatim>\<open>get_chat_history\<close>, calls
  the chain on the messages stored so far, and appends the human message and the AI
  message to that object (the notebook's recorded output shows the alternation
  \<^verbatim>\<open>human, ai, human, ai, ...\<close>).
\<close>

type_synonym llm = "str \<Rightarrow> message list \<Rightarrow> str \<Rightarrow> str"

definition chain_with_history_invoke ::
    "llm \<Rightarrow> str \<Rightarrow> str \<Rightarrow> str \<Rightarrow> state \<Rightarrow> error + (str \<times> state)" where
  "chain_with_history_invoke model input long_term_mem session_id s =
     and_then (get_chat_history session_id s)
       (\<lambda>(h, s1).
          let response = model long_term_mem (histories s1 h) input
          in Inr (response,
                  s1\<lparr>histories := (histories s1)
                        (h := histories s1 h @ [HumanMessage input, AIMessage response])\<rparr>))"

text \<open>
  \<^verbatim>\<open>
  def chat(input_text: str, session_id: str):
      long_term_mem = get_long_term_memory(session_id)
      response = chain_with_history.invoke(
          {"input": input_text, "long_term_memory": long_term_mem},
          config={"configurable": {"session_id": session_id}})
      update_long_term_memory(session_id, input_text, response.content)
      return response.content
  \<close>
\<close>

definition chat :: "llm \<Rightarrow> str \<Rightarrow> str \<Rightarrow> state \<Rightarrow> error + (str \<times> state)" where
  "chat model input_text session_id s =
     and_then (get_long_term_memory session_id s)
       (\<lambda>(long_term_mem, s0).
          and_then (chain_with_history_invoke model input_text long_term_mem session_id s0)
            (\<lambda>(response, s1).
               and_then (update_long_term_memory session_id input_text response s1)
                 (\<lambda>s2. Inr (response, s2))))"

section \<open>Sequences of public operations\<close>

text \<open>
  The operations a caller of the notebook's functions can invoke, each with the session
  id it is invoked with, and the effect of a sequence of them on the stores.
\<close>

datatype op =
    GetChatHistory str
  | UpdateLongTermMemory str str str
  | GetLongTermMemory str
  | Chat str str

fun op_session :: "op \<Rightarrow> str" where
  "op_session (GetChatHistory session_id) = session_id"
| "op_session (UpdateLongTermMemory session_id input output) = session_id"
| "op_session (GetLongTermMemory session_id) = session_id"
| "op_session (Chat input_text session_id) = session_id"

fun step :: "llm \<Rightarrow> op \<Rightarrow> state \<Rightarrow> error + state" where
  "step model (GetChatHistory session_id) s =
     and_then (get_chat_history session_id s) (\<lambda>(h, s'). Inr s')"
| "step model (UpdateLongTermMemory session_id input output) s =
     update_long_term_memory session_id input output s"
| "step model (GetLongTermMemory session_id) s =
     and_then (get_long_term_memory session_id s) (\<lambda>(r, s'). Inr s')"
| "step model (Chat input_text session_id) s =
     and_then (chat model input_text session_id s) (\<lambda>(r, s'). Inr s')"

fun run :: "llm \<Rightarrow> op list \<Rightarrow> state \<Rightarrow> error + state" where
  "run model [] s = Inr s"
| "run model (x # xs) s = and_then (step model x s) (run model xs)"

section \<open>Notions used to state the properties\<close>

text \<open>The facts held for a session: the stored list, or none when the key is absent.\<close>

definition stored_facts :: "state \<Rightarrow> str \<Rightarrow> str list" where
  "stored_facts s session_id =
     (case long_term_memory s session_id of None \<Rightarrow> [] | Some xs \<Rightarrow> xs)"

text \<open>
  The eviction loop in the specification's words (section 4.3): while the size exceeds
  the capacity, remove the element at index 0. It is compared with the slice of the code.
\<close>

function spec_evict :: "nat \<Rightarrow> 'a list \<Rightarrow> 'a list" where
  "spec_evict capacity xs =
     (if capacity < length xs then spec_evict capacity (tl xs) else xs)"
  by pat_completeness auto
termination
  by (relation "measure (\<lambda>(capacity, xs). length xs)") auto

declare spec_evict.simps [simp del]

text \<open>The fact the code builds from an accepted input: \<^verbatim>\<open>f"User said: {input}"\<close>.\<close>

definition user_said :: "str \<Rightarrow> str" where
  "user_said input = str_of ''User said: '' @ input"

text \<open>The capacity bound: every long-term list holds at most five facts.\<close>

definition capacity_ok :: "state \<Rightarrow> bool" where
  "capacity_ok s \<longleftrightarrow> (\<forall>sid xs. long_term_memory s sid = Some xs \<longrightarrow> length xs \<le> 5)"

text \<open>
  Well-formed references: every history object registered in \<open>chat_store\<close> has been
  allocated, and no two session ids share one object. Python guarantees both for the
  states the functions build; the model proves them preserved.
\<close>

definition wf_sessions :: "state \<Rightarrow> bool" where
  "wf_sessions s \<longleftrightarrow>
     (\<forall>sid h. chat_store s sid = Some h \<longrightarrow> h < next_ref s) \<and>
     (\<forall>sid sid' h. chat_store s sid = Some h \<longrightarrow> chat_store s sid' = Some h \<longrightarrow> sid = sid')"

text \<open>
  An example state: session \<open>"B"\<close> has one exchange in its history and one fact
  in its long-term list.
\<close>

definition session_b_state :: state where
  "session_b_state =
     \<lparr>chat_store = [str_of ''B'' \<mapsto> 0],
      long_term_memory = [str_of ''B'' \<mapsto> [str_of ''User said: Hello! My name is Bob B.'']],
      histories = (\<lambda>_. [])(0 := [HumanMessage (str_of ''Hello! My name is Bob B.''),
                                   AIMessage (str_of ''Hello, Bob!'')]),
      next_ref = Suc 0\<rparr>"

section \<open>What each function computes\<close>

lemma slice_from_neg5: "slice_from (- 5) xs = drop (length xs - 5) xs"
  by (simp add: slice_from_def Let_def max_def nat_diff_distrib') 

lemma spec_evict_drop: "spec_evict capacity xs = drop (length xs - capacity) xs"
proof (induction capacity xs rule: spec_evict.induct)
  case (1 capacity xs)
  show ?case
  proof (cases "capacity < length xs")
    case True
    then obtain y ys where xs: "xs = y # ys" by (cases xs) auto
    from True xs have "length xs - capacity = Suc (length ys - capacity)" by auto
    with 1 True xs show ?thesis by (simp add: spec_evict.simps[of capacity "y # ys"])
  next
    case False
    then show ?thesis by (simp add: spec_evict.simps[of capacity xs])
  qed
qed

lemma update_long_term_memory_eq:
  "update_long_term_memory sid x out s =
     Inr (s\<lparr>long_term_memory := (long_term_memory s)
            (sid \<mapsto> slice_from (- 5)
               (stored_facts s sid @ (if 20 < length x then [user_said x] else [])))\<rparr>)"
  by (auto simp: update_long_term_memory_def stored_facts_def getitem_def and_then_def Let_def
      slice_from_neg5 map_upd_triv user_said_def split: option.splits)

lemma get_chat_history_eq:
  "get_chat_history sid s =
     (case chat_store s sid of
        Some h \<Rightarrow> Inr (h, s)
      | None \<Rightarrow> Inr (next_ref s,
          s\<lparr>chat_store := (chat_store s)(sid \<mapsto> next_ref s),
            histories := (histories s)(next_ref s := []),
            next_ref := Suc (next_ref s)\<rparr>))"
  by (auto simp: get_chat_history_def getitem_def and_then_def Let_def split: option.splits)

lemma get_long_term_memory_eq:
  "get_long_term_memory sid s = Inr (join_str (str_of ''. '') (stored_facts s sid), s)"
  by (simp add: get_long_term_memory_def stored_facts_def)

lemma join_str_Cons: "join_str sep (x # xs) = x @ concat (map (\<lambda>y. sep @ y) xs)"
  by (induction xs arbitrary: x) auto

lemmas step_defs = chat_def chain_with_history_invoke_def get_chat_history_eq
  update_long_term_memory_eq get_long_term_memory_eq and_then_def

lemma step_total: "\<exists>s'. step model x s = Inr s'"
  by (cases x) (auto simp: step_defs Let_def split: option.splits)

lemma step_capacity_ok: "capacity_ok s \<Longrightarrow> step model x s = Inr s' \<Longrightarrow> capacity_ok s'"
  by (cases x) (auto simp: step_defs Let_def capacity_ok_def slice_from_neg5 split: option.splits if_splits)

lemma wf_sessions_lt: "wf_sessions s \<Longrightarrow> chat_store s sid = Some h \<Longrightarrow> h < next_ref s"
  by (auto simp: wf_sessions_def)

lemma wf_sessions_fresh: "wf_sessions s \<Longrightarrow> chat_store s sid \<noteq> Some (next_ref s)"
  by (auto dest: wf_sessions_lt)

lemma wf_sessions_inj:
  "wf_sessions s \<Longrightarrow> chat_store s sid = Some h \<Longrightarrow> chat_store s sid' = Some h \<Longrightarrow> sid = sid'"
  by (auto simp: wf_sessions_def)

lemma wf_sessions_same:
  "wf_sessions s \<Longrightarrow> chat_store s' = chat_store s \<Longrightarrow> next_ref s' = next_ref s \<Longrightarrow>
     wf_sessions s'"
  by (simp add: wf_sessions_def)

lemma wf_sessions_alloc:
  assumes wf: "wf_sessions s" and new: "chat_store s sid = None"
    and cs: "chat_store s' = (chat_store s)(sid \<mapsto> next_ref s)"
    and nr: "next_ref s' = Suc (next_ref s)"
  shows "wf_sessions s'"
  unfolding wf_sessions_def
proof (intro conjI allI impI)
  fix a h
  assume "chat_store s' a = Some h"
  with cs nr wf show "h < next_ref s'"
    by (auto simp: less_Suc_eq dest: wf_sessions_lt split: if_splits)
next
  fix a b h
  assume "chat_store s' a = Some h" and "chat_store s' b = Some h"
  with cs wf show "a = b"
    by (auto dest: wf_sessions_inj wf_sessions_fresh split: if_splits)
qed

lemma step_chat_store_cases:
  "step model x s = Inr s' \<Longrightarrow>
     (chat_store s' = chat_store s \<and> next_ref s' = next_ref s) \<or>
     (chat_store s (op_session x) = None \<and>
      chat_store s' = (chat_store s)(op_session x \<mapsto> next_ref s) \<and>
      next_ref s' = Suc (next_ref s))"
  by (cases x) (auto simp: step_defs Let_def split: option.splits if_splits)

lemma step_wf: "wf_sessions s \<Longrightarrow> step model x s = Inr s' \<Longrightarrow> wf_sessions s'"
  using step_chat_store_cases [of model x s s']
  by (auto intro: wf_sessions_same wf_sessions_alloc)

lemma step_frame:
  "wf_sessions s \<Longrightarrow> op_session x \<noteq> B \<Longrightarrow> step model x s = Inr s' \<Longrightarrow>
     chat_store s' B = chat_store s B \<and> long_term_memory s' B = long_term_memory s B \<and>
     (\<forall>h. chat_store s B = Some h \<longrightarrow> histories s' h = histories s h)"
  by (cases x) (auto simp: step_defs Let_def stored_facts_def dest: wf_sessions_fresh wf_sessions_inj split: option.splits if_splits)

lemma step_chat_store: 
  "chat_store s sid = Some h \<Longrightarrow> step model x s = Inr s' \<Longrightarrow> chat_store s' sid = Some h"
  by (cases x) (auto simp: step_defs Let_def split: option.splits if_splits)

lemma slice_slice_append:
  "slice_from (- 5) (slice_from (- 5) xs @ ys) = slice_from (- 5) (xs @ ys)"
proof (cases "5 \<le> length xs")
  case True
  then have "length xs + length ys - (length xs - 5 + 5) + (length xs - 5)
      = length xs + length ys - 5"
    by arith
  then show ?thesis by (simp add: slice_from_neg5)
next
  case False
  then show ?thesis by (simp add: slice_from_neg5)
qed

lemma stored_facts_update [simp]:
  "stored_facts (s\<lparr>long_term_memory := (long_term_memory s)(sid \<mapsto> xs)\<rparr>) sid = xs"
  by (simp add: stored_facts_def)

section \<open>FIFO eviction of the long-term store\<close>

text \<open>
  C1. From any state of any session, after seven accepted inputs (each longer than 20
  characters) are recorded in order, the long-term list of the session is exactly the
  facts of the last five inputs, in insertion order, and \<open>get_long_term_memory\<close>
  returns them joined with \<open>". "\<close>. One accepted insertion leaves what the
  specification's loop leaves: the fact appended at the end, then the element at index 0
  removed while the size exceeds 5.
\<close>

theorem fifo_eviction_seven_facts:
  assumes "20 < length x1" and "20 < length x2" and "20 < length x3" and "20 < length x4"
    and "20 < length x5" and "20 < length x6" and "20 < length x7"
  shows "(\<exists>s'. run model
             [UpdateLongTermMemory sid x1 o1, UpdateLongTermMemory sid x2 o2,
              UpdateLongTermMemory sid x3 o3, UpdateLongTermMemory sid x4 o4,
              UpdateLongTermMemory sid x5 o5, UpdateLongTermMemory sid x6 o6,
              UpdateLongTermMemory sid x7 o7] s = Inr s' \<and>
            long_term_memory s' sid =
              Some [user_said x3, user_said x4, user_said x5, user_said x6, user_said x7] \<and>
            get_long_term_memory sid s' =
              Inr (user_said x3 @ str_of ''. '' @ user_said x4 @ str_of ''. '' @
                   user_said x5 @ str_of ''. '' @ user_said x6 @ str_of ''. '' @
                   user_said x7, s')) \<and>
         (\<exists>s1. update_long_term_memory sid x1 o1 s = Inr s1 \<and>
            long_term_memory s1 sid = Some (spec_evict 5 (stored_facts s sid @ [user_said x1])))"
proof (intro conjI)
  show "\<exists>s1. update_long_term_memory sid x1 o1 s = Inr s1 \<and>
            long_term_memory s1 sid = Some (spec_evict 5 (stored_facts s sid @ [user_said x1]))"
    using assms(1) by (simp add: update_long_term_memory_eq spec_evict_drop slice_from_neg5)
next
  show "\<exists>s'. run model
             [UpdateLongTermMemory sid x1 o1, UpdateLongTermMemory sid x2 o2,
              UpdateLongTermMemory sid x3 o3, UpdateLongTermMemory sid x4 o4,
              UpdateLongTermMemory sid x5 o5, UpdateLongTermMemory sid x6 o6,
              UpdateLongTermMemory sid x7 o7] s = Inr s' \<and>
            long_term_memory s' sid =
              Some [user_said x3, user_said x4, user_said x5, user_said x6, user_said x7] \<and>
            get_long_term_memory sid s' =
              Inr (user_said x3 @ str_of ''. '' @ user_said x4 @ str_of ''. '' @
                   user_said x5 @ str_of ''. '' @ user_said x6 @ str_of ''. '' @
                   user_said x7, s')"
    using assms
    by (simp add: update_long_term_memory_eq get_long_term_memory_eq and_then_def
        slice_slice_append) (simp add: slice_from_neg5)
qed


theorem fifo_eviction_seven_facts_witness:
  "20 < length (str_of ''The first fact is here'') \<and>
   20 < length (str_of ''The second fact is here'') \<and>
   20 < length (str_of ''The third fact is here'') \<and>
   20 < length (str_of ''The fourth fact is here'') \<and>
   20 < length (str_of ''The fifth fact is here'') \<and>
   20 < length (str_of ''The sixth fact is here'') \<and>
   20 < length (str_of ''The seventh fact is here'') \<and>
   (\<exists>s'. run (\<lambda>m h i. [])
      [UpdateLongTermMemory (str_of ''user_123'') (str_of ''The first fact is here'') [],
       UpdateLongTermMemory (str_of ''user_123'') (str_of ''The second fact is here'') [],
       UpdateLongTermMemory (str_of ''user_123'') (str_of ''The third fact is here'') [],
       UpdateLongTermMemory (str_of ''user_123'') (str_of ''The fourth fact is here'') [],
       UpdateLongTermMemory (str_of ''user_123'') (str_of ''The fifth fact is here'') [],
       UpdateLongTermMemory (str_of ''user_123'') (str_of ''The sixth fact is here'') [],
       UpdateLongTermMemory (str_of ''user_123'') (str_of ''The seventh fact is here'') []]
      initial_state = Inr s' \<and>
    long_term_memory s' (str_of ''user_123'') =
      Some [str_of ''User said: The third fact is here'',
            str_of ''User said: The fourth fact is here'',
            str_of ''User said: The fifth fact is here'',
            str_of ''User said: The sixth fact is here'',
            str_of ''User said: The seventh fact is here''] \<and>
    get_long_term_memory (str_of ''user_123'') s' =
      Inr (str_of ''User said: The third fact is here. User said: The fourth fact is here. User said: The fifth fact is here. User said: The sixth fact is here. User said: The seventh fact is here'', s'))"
proof -
  have h1: "20 < length (str_of ''The first fact is here'')" by (simp add: str_of_def)
  have h2: "20 < length (str_of ''The second fact is here'')" by (simp add: str_of_def)
  have h3: "20 < length (str_of ''The third fact is here'')" by (simp add: str_of_def)
  have h4: "20 < length (str_of ''The fourth fact is here'')" by (simp add: str_of_def)
  have h5: "20 < length (str_of ''The fifth fact is here'')" by (simp add: str_of_def)
  have h6: "20 < length (str_of ''The sixth fact is here'')" by (simp add: str_of_def)
  have h7: "20 < length (str_of ''The seventh fact is here'')" by (simp add: str_of_def)
  have u: "user_said (str_of a) = str_of (''User said: '' @ a)" for a
    by (simp add: user_said_def str_of_def)
  have j: "str_of a @ str_of b = str_of (a @ b)" for a b
    by (simp add: str_of_def)
  from fifo_eviction_seven_facts [OF h1 h2 h3 h4 h5 h6 h7,
      of "\<lambda>m h i. []" "str_of ''user_123''" "[]" "[]" "[]" "[]" "[]" "[]" "[]" initial_state]
  obtain s' where "run (\<lambda>m h i. [])
      [UpdateLongTermMemory (str_of ''user_123'') (str_of ''The first fact is here'') [],
       UpdateLongTermMemory (str_of ''user_123'') (str_of ''The second fact is here'') [],
       UpdateLongTermMemory (str_of ''user_123'') (str_of ''The third fact is here'') [],
       UpdateLongTermMemory (str_of ''user_123'') (str_of ''The fourth fact is here'') [],
       UpdateLongTermMemory (str_of ''user_123'') (str_of ''The fifth fact is here'') [],
       UpdateLongTermMemory (str_of ''user_123'') (str_of ''The sixth fact is here'') [],
       UpdateLongTermMemory (str_of ''user_123'') (str_of ''The seventh fact is here'') []]
      initial_state = Inr s'"
    and "long_term_memory s' (str_of ''user_123'') =
      Some [user_said (str_of ''The third fact is here''),
            user_said (str_of ''The fourth fact is here''),
            user_said (str_of ''The fifth fact is here''),
            user_said (str_of ''The sixth fact is here''),
            user_said (str_of ''The seventh fact is here'')]"
    and "get_long_term_memory (str_of ''user_123'') s' =
      Inr (user_said (str_of ''The third fact is here'') @ str_of ''. '' @
           user_said (str_of ''The fourth fact is here'') @ str_of ''. '' @
           user_said (str_of ''The fifth fact is here'') @ str_of ''. '' @
           user_said (str_of ''The sixth fact is here'') @ str_of ''. '' @
           user_said (str_of ''The seventh fact is here''), s')"
    by blast
  then show ?thesis
    using h1 h2 h3 h4 h5 h6 h7 by (intro conjI exI [of _ s']) (simp_all only: u j append.simps)
qed

lemma length_str_of: "length (str_of a) = length a"
  by (simp add: str_of_def)

lemma str_of_append: "str_of a @ str_of b = str_of (a @ b)"
  by (simp add: str_of_def)

lemma str_of_append2: "str_of a @ str_of b @ c = str_of (a @ b) @ c"
  by (simp add: str_of_def)

lemma user_said_str_of: "user_said (str_of a) = str_of (''User said: '' @ a)"
  by (simp add: user_said_def str_of_def)

lemma stored_facts_initial: "stored_facts initial_state sid = []"
  by (simp add: stored_facts_def initial_state_def)

lemma slice_from_neg5_short: "length xs \<le> 5 \<Longrightarrow> slice_from (- 5) xs = xs"
  by (simp add: slice_from_neg5)

section \<open>The retention threshold\<close>

text \<open>
  C2. An input is retained exactly when it is longer than 20 characters. From any state
  of any session, an accepted input leaves the last five of the old facts followed by
  \<open>"User said: " + input\<close>, which is then the newest fact; a rejected input adds
  nothing (the list is only cut to its last five). The 20-character input
  \<open>"12345678901234567890"\<close> is rejected and the 21-character input
  \<open>"123456789012345678901"\<close> is stored as
  \<open>"User said: 123456789012345678901"\<close>; on a fresh session the list is then empty,
  respectively that one fact.
\<close>

theorem retention_threshold:
  "(20 < length input \<longrightarrow>
      (\<exists>s'. update_long_term_memory sid input out s = Inr s' \<and>
         stored_facts s' sid = slice_from (- 5) (stored_facts s sid @ [user_said input]) \<and>
         last (stored_facts s' sid) = user_said input)) \<and>
   (length input \<le> 20 \<longrightarrow>
      (\<exists>s'. update_long_term_memory sid input out s = Inr s' \<and>
         stored_facts s' sid = slice_from (- 5) (stored_facts s sid))) \<and>
   (\<exists>s'. update_long_term_memory sid (str_of ''12345678901234567890'') out s = Inr s' \<and>
      stored_facts s' sid = slice_from (- 5) (stored_facts s sid)) \<and>
   (\<exists>s'. update_long_term_memory sid (str_of ''123456789012345678901'') out s = Inr s' \<and>
      stored_facts s' sid =
        slice_from (- 5) (stored_facts s sid @ [str_of ''User said: 123456789012345678901''])) \<and>
   (\<exists>s'. update_long_term_memory sid (str_of ''12345678901234567890'') out initial_state = Inr s' \<and>
      long_term_memory s' sid = Some []) \<and>
   (\<exists>s'. update_long_term_memory sid (str_of ''123456789012345678901'') out initial_state = Inr s' \<and>
      long_term_memory s' sid = Some [str_of ''User said: 123456789012345678901''])"
proof (intro conjI impI)
  assume "20 < length input"
  then show "\<exists>s'. update_long_term_memory sid input out s = Inr s' \<and>
         stored_facts s' sid = slice_from (- 5) (stored_facts s sid @ [user_said input]) \<and>
         last (stored_facts s' sid) = user_said input"
    by (simp add: update_long_term_memory_eq slice_from_neg5)
next
  assume "length input \<le> 20"
  then show "\<exists>s'. update_long_term_memory sid input out s = Inr s' \<and>
         stored_facts s' sid = slice_from (- 5) (stored_facts s sid)"
    by (simp add: update_long_term_memory_eq)
next
  show "\<exists>s'. update_long_term_memory sid (str_of ''12345678901234567890'') out s = Inr s' \<and>
      stored_facts s' sid = slice_from (- 5) (stored_facts s sid)"
    by (simp add: update_long_term_memory_eq length_str_of)
next
  show "\<exists>s'. update_long_term_memory sid (str_of ''123456789012345678901'') out s = Inr s' \<and>
      stored_facts s' sid =
        slice_from (- 5) (stored_facts s sid @ [str_of ''User said: 123456789012345678901''])"
    by (simp add: update_long_term_memory_eq length_str_of user_said_str_of)
next
  show "\<exists>s'. update_long_term_memory sid (str_of ''12345678901234567890'') out initial_state = Inr s' \<and>
      long_term_memory s' sid = Some []"
    by (simp add: update_long_term_memory_eq length_str_of stored_facts_initial slice_from_neg5)
next
  show "\<exists>s'. update_long_term_memory sid (str_of ''123456789012345678901'') out initial_state = Inr s' \<and>
      long_term_memory s' sid = Some [str_of ''User said: 123456789012345678901'']"
    by (simp add: update_long_term_memory_eq length_str_of stored_facts_initial slice_from_neg5
        user_said_str_of)
qed

theorem retention_threshold_witness:
  "20 < length (str_of ''Hello! My name is Alice.'') \<and>
   (\<exists>s'. update_long_term_memory (str_of ''user_123'') (str_of ''Hello! My name is Alice.'')
            (str_of ''Hello, Alice!'') initial_state = Inr s' \<and>
      stored_facts s' (str_of ''user_123'') = [str_of ''User said: Hello! My name is Alice.'']) \<and>
   length (str_of ''I love sunny days.'') \<le> 20 \<and>
   (\<exists>s'. update_long_term_memory (str_of ''user_123'') (str_of ''I love sunny days.'')
            (str_of ''Sunny days are wonderful!'') initial_state = Inr s' \<and>
      stored_facts s' (str_of ''user_123'') = [])"
proof -
  have a: "20 < length (str_of ''Hello! My name is Alice.'')"
    by (simp add: length_str_of)
  have r: "length (str_of ''I love sunny days.'') \<le> 20"
    by (simp add: length_str_of)
  have "\<exists>s'. update_long_term_memory (str_of ''user_123'') (str_of ''Hello! My name is Alice.'')
            (str_of ''Hello, Alice!'') initial_state = Inr s' \<and>
      stored_facts s' (str_of ''user_123'') = [str_of ''User said: Hello! My name is Alice.'']"
    using retention_threshold [of "str_of ''Hello! My name is Alice.''" "str_of ''user_123''"
        "str_of ''Hello, Alice!''" initial_state] a
    by (auto simp: stored_facts_initial slice_from_neg5 user_said_str_of)
  moreover have "\<exists>s'. update_long_term_memory (str_of ''user_123'') (str_of ''I love sunny days.'')
            (str_of ''Sunny days are wonderful!'') initial_state = Inr s' \<and>
      stored_facts s' (str_of ''user_123'') = []"
    using retention_threshold [of "str_of ''I love sunny days.''" "str_of ''user_123''"
        "str_of ''Sunny days are wonderful!''" initial_state] r
    by (auto simp: stored_facts_initial slice_from_neg5)
  ultimately show ?thesis using a r by blast
qed

section \<open>Rendering the long-term store\<close>

text \<open>
  C3. \<open>get_long_term_memory\<close> returns the empty string when the session has no facts
  (no entry, or an empty list), and otherwise the first fact followed by each later fact
  prefixed with \<open>". "\<close>, in stored order. In the four-input scenario the first,
  second and fourth input are longer than 20 characters and the third is not, and after
  the four calls, made directly through \<open>update_long_term_memory\<close> with any
  outputs or through \<open>chat\<close> with any language model, the render is exactly the
  string of the notebook's recorded output.
\<close>

theorem render_long_term:
  "((long_term_memory s sid = None \<or> long_term_memory s sid = Some []) \<longrightarrow>
      get_long_term_memory sid s = Inr ([], s)) \<and>
   (\<forall>f fs. long_term_memory s sid = Some (f # fs) \<longrightarrow>
      get_long_term_memory sid s = Inr (f @ concat (map (\<lambda>g. str_of ''. '' @ g) fs), s)) \<and>
   20 < length (str_of ''Hello! My name is Alice.'') \<and>
   20 < length (str_of ''What's the weather like today?'') \<and>
   \<not> 20 < length (str_of ''I love sunny days.'') \<and>
   20 < length (str_of ''Do you remember my name?'') \<and>
   (\<exists>s'. run model
      [UpdateLongTermMemory sid (str_of ''Hello! My name is Alice.'') o1,
       UpdateLongTermMemory sid (str_of ''What's the weather like today?'') o2,
       UpdateLongTermMemory sid (str_of ''I love sunny days.'') o3,
       UpdateLongTermMemory sid (str_of ''Do you remember my name?'') o4] initial_state = Inr s' \<and>
      get_long_term_memory sid s' =
        Inr (str_of ''User said: Hello! My name is Alice.. User said: What's the weather like today?. User said: Do you remember my name?'', s')) \<and>
   (\<exists>s'. run model
      [Chat (str_of ''Hello! My name is Alice.'') sid,
       Chat (str_of ''What's the weather like today?'') sid,
       Chat (str_of ''I love sunny days.'') sid,
       Chat (str_of ''Do you remember my name?'') sid] initial_state = Inr s' \<and>
      get_long_term_memory sid s' =
        Inr (str_of ''User said: Hello! My name is Alice.. User said: What's the weather like today?. User said: Do you remember my name?'', s'))"
proof (intro conjI impI allI)
  assume "long_term_memory s sid = None \<or> long_term_memory s sid = Some []"
  then show "get_long_term_memory sid s = Inr ([], s)"
    by (auto simp: get_long_term_memory_def)
next
  fix f fs
  assume "long_term_memory s sid = Some (f # fs)"
  then show "get_long_term_memory sid s = Inr (f @ concat (map (\<lambda>g. str_of ''. '' @ g) fs), s)"
    by (simp add: get_long_term_memory_def join_str_Cons)
next
  show "\<exists>s'. run model
      [UpdateLongTermMemory sid (str_of ''Hello! My name is Alice.'') o1,
       UpdateLongTermMemory sid (str_of ''What's the weather like today?'') o2,
       UpdateLongTermMemory sid (str_of ''I love sunny days.'') o3,
       UpdateLongTermMemory sid (str_of ''Do you remember my name?'') o4] initial_state = Inr s' \<and>
      get_long_term_memory sid s' =
        Inr (str_of ''User said: Hello! My name is Alice.. User said: What's the weather like today?. User said: Do you remember my name?'', s')"
    by (simp add: update_long_term_memory_eq get_long_term_memory_eq and_then_def
        length_str_of stored_facts_initial slice_from_neg5 user_said_str_of
        str_of_append str_of_append2)
next
  show "\<exists>s'. run model
      [Chat (str_of ''Hello! My name is Alice.'') sid,
       Chat (str_of ''What's the weather like today?'') sid,
       Chat (str_of ''I love sunny days.'') sid,
       Chat (str_of ''Do you remember my name?'') sid] initial_state = Inr s' \<and>
      get_long_term_memory sid s' =
        Inr (str_of ''User said: Hello! My name is Alice.. User said: What's the weather like today?. User said: Do you remember my name?'', s')"
    by (simp add: step_defs Let_def
        length_str_of stored_facts_def initial_state_def slice_from_neg5 user_said_str_of
        str_of_append str_of_append2)
qed (simp_all add: length_str_of)

theorem render_long_term_witness:
  "get_long_term_memory (str_of ''user_123'') initial_state = Inr ([], initial_state) \<and>
   get_long_term_memory (str_of ''user_123'')
     (initial_state\<lparr>long_term_memory :=
        [str_of ''user_123'' \<mapsto> [str_of ''f1'', str_of ''f2'', str_of ''f3'']]\<rparr>) =
     Inr (str_of ''f1. f2. f3'',
          initial_state\<lparr>long_term_memory :=
            [str_of ''user_123'' \<mapsto> [str_of ''f1'', str_of ''f2'', str_of ''f3'']]\<rparr>)"
proof -
  have e: "long_term_memory initial_state (str_of ''user_123'') = None
      \<or> long_term_memory initial_state (str_of ''user_123'') = Some []"
    by (simp add: initial_state_def)
  have f: "long_term_memory
       (initial_state\<lparr>long_term_memory :=
          [str_of ''user_123'' \<mapsto> [str_of ''f1'', str_of ''f2'', str_of ''f3'']]\<rparr>)
       (str_of ''user_123'') = Some (str_of ''f1'' # [str_of ''f2'', str_of ''f3''])"
    by simp
  from render_long_term [of initial_state "str_of ''user_123''"] e
  have "get_long_term_memory (str_of ''user_123'') initial_state = Inr ([], initial_state)"
    by blast
  moreover from render_long_term [of "initial_state\<lparr>long_term_memory :=
          [str_of ''user_123'' \<mapsto> [str_of ''f1'', str_of ''f2'', str_of ''f3'']]\<rparr>"
      "str_of ''user_123''"] f
  have "get_long_term_memory (str_of ''user_123'')
     (initial_state\<lparr>long_term_memory :=
        [str_of ''user_123'' \<mapsto> [str_of ''f1'', str_of ''f2'', str_of ''f3'']]\<rparr>) =
     Inr (str_of ''f1'' @ concat (map (\<lambda>g. str_of ''. '' @ g) [str_of ''f2'', str_of ''f3'']),
          initial_state\<lparr>long_term_memory :=
            [str_of ''user_123'' \<mapsto> [str_of ''f1'', str_of ''f2'', str_of ''f3'']]\<rparr>)"
    by blast
  ultimately show ?thesis
    by (simp add: str_of_append str_of_append2)
qed

section \<open>Session lookup and creation\<close>

text \<open>
  C4, as stated, fails on the code: the empty session id is not refused. On the initial
  state \<open>get_chat_history\<close> with the empty string returns a handle, and the state
  has changed: the empty id is now registered.
\<close>

theorem empty_session_id_accepted:
  "get_chat_history [] initial_state =
     Inr (0, initial_state\<lparr>chat_store := [[] \<mapsto> 0], next_ref := Suc 0\<rparr>) \<and>
   initial_state\<lparr>chat_store := [[] \<mapsto> 0], next_ref := Suc 0\<rparr> \<noteq> initial_state"
  by (simp add: get_chat_history_eq initial_state_def fun_upd_idem_iff)

text \<open>
  C4, amended. \<open>get_chat_history\<close> never fails, for any session id, the empty
  string included: for a registered id it returns the registered handle and leaves the
  state unchanged; for an unseen id it allocates an empty history, registers it and
  returns it.
\<close>

theorem get_chat_history_never_fails:
  "(\<exists>h s'. get_chat_history sid s = Inr (h, s')) \<and>
   (\<forall>h. chat_store s sid = Some h \<longrightarrow> get_chat_history sid s = Inr (h, s)) \<and>
   (chat_store s sid = None \<longrightarrow>
      get_chat_history sid s =
        Inr (next_ref s,
             s\<lparr>chat_store := (chat_store s)(sid \<mapsto> next_ref s),
               histories := (histories s)(next_ref s := []),
               next_ref := Suc (next_ref s)\<rparr>))"
  by (auto simp: get_chat_history_eq split: option.splits)

theorem get_chat_history_never_fails_witness:
  "chat_store initial_state (str_of ''user_123'') = None \<and>
   get_chat_history (str_of ''user_123'') initial_state =
     Inr (0, initial_state\<lparr>chat_store := [str_of ''user_123'' \<mapsto> 0], next_ref := Suc 0\<rparr>) \<and>
   chat_store (initial_state\<lparr>chat_store := [str_of ''user_123'' \<mapsto> 0], next_ref := Suc 0\<rparr>)
     (str_of ''user_123'') = Some 0 \<and>
   get_chat_history (str_of ''user_123'')
     (initial_state\<lparr>chat_store := [str_of ''user_123'' \<mapsto> 0], next_ref := Suc 0\<rparr>) =
     Inr (0, initial_state\<lparr>chat_store := [str_of ''user_123'' \<mapsto> 0], next_ref := Suc 0\<rparr>)"
proof -
  have n: "chat_store initial_state (str_of ''user_123'') = None"
    by (simp add: initial_state_def)
  have k: "chat_store (initial_state\<lparr>chat_store := [str_of ''user_123'' \<mapsto> 0], next_ref := Suc 0\<rparr>)
     (str_of ''user_123'') = Some 0"
    by simp
  from get_chat_history_never_fails [of "str_of ''user_123''" initial_state] n
  have "get_chat_history (str_of ''user_123'') initial_state =
     Inr (next_ref initial_state,
          initial_state\<lparr>chat_store := (chat_store initial_state)(str_of ''user_123'' \<mapsto> next_ref initial_state),
               histories := (histories initial_state)(next_ref initial_state := []),
               next_ref := Suc (next_ref initial_state)\<rparr>)"
    by blast
  then have "get_chat_history (str_of ''user_123'') initial_state =
     Inr (0, initial_state\<lparr>chat_store := [str_of ''user_123'' \<mapsto> 0], next_ref := Suc 0\<rparr>)"
    by (simp add: initial_state_def fun_upd_idem_iff)
  moreover
  from get_chat_history_never_fails [of "str_of ''user_123''"
      "initial_state\<lparr>chat_store := [str_of ''user_123'' \<mapsto> 0], next_ref := Suc 0\<rparr>"] k
  have "get_chat_history (str_of ''user_123'')
     (initial_state\<lparr>chat_store := [str_of ''user_123'' \<mapsto> 0], next_ref := Suc 0\<rparr>) =
     Inr (0, initial_state\<lparr>chat_store := [str_of ''user_123'' \<mapsto> 0], next_ref := Suc 0\<rparr>)"
    by blast
  ultimately show ?thesis using n k by blast
qed

section \<open>Sequences of operations keep an invariant\<close>

text \<open>
  No operation fails, so a property that holds before a sequence and is kept by each of
  its steps holds after it.
\<close>

lemma run_invariant:
  assumes "P s"
    and "\<And>x t t'. x \<in> set xs \<Longrightarrow> P t \<Longrightarrow> step model x t = Inr t' \<Longrightarrow> P t'"
  shows "\<exists>s'. run model xs s = Inr s' \<and> P s'"
  using assms
proof (induction xs arbitrary: s)
  case Nil
  then show ?case by simp
next
  case (Cons x xs)
  obtain t where t: "step model x s = Inr t"
    using step_total by blast
  with Cons.prems(1) Cons.prems(2) [of x s t] have "P t" by simp
  with Cons.IH [of t] Cons.prems(2) obtain s' where "run model xs t = Inr s'" and "P s'"
    by auto
  with t show ?case by (simp add: and_then_def)
qed

lemma capacity_ok_initial: "capacity_ok initial_state"
  by (simp add: capacity_ok_def initial_state_def)

lemma wf_sessions_initial: "wf_sessions initial_state"
  by (simp add: wf_sessions_def initial_state_def)

text \<open>
  C5. Session creation is idempotent. \<open>get_chat_history\<close> returns a handle that is
  then registered for the id, and a second call returns the same handle (the same object,
  not a copy) and changes nothing. A registered id keeps its handle through every
  sequence of operations, so it never maps to a second instance; and what \<open>chat\<close>
  appends through the handle is read through the handle a later call returns.
\<close>

theorem session_creation_idempotent:
  "(\<exists>h s1. get_chat_history sid s = Inr (h, s1) \<and> chat_store s1 sid = Some h \<and>
      get_chat_history sid s1 = Inr (h, s1)) \<and>
   (\<forall>h. chat_store s sid = Some h \<longrightarrow>
      (\<exists>s'. run model xs s = Inr s' \<and> chat_store s' sid = Some h \<and>
         get_chat_history sid s' = Inr (h, s'))) \<and>
   (\<forall>h. chat_store s sid = Some h \<longrightarrow>
      (\<exists>r s'. chat model input sid s = Inr (r, s') \<and> get_chat_history sid s' = Inr (h, s') \<and>
         histories s' h = histories s h @ [HumanMessage input, AIMessage r]))"
proof (intro conjI allI impI)
  show "\<exists>h s1. get_chat_history sid s = Inr (h, s1) \<and> chat_store s1 sid = Some h \<and>
      get_chat_history sid s1 = Inr (h, s1)"
    by (cases "chat_store s sid") (simp_all add: get_chat_history_eq)
next
  fix h
  assume h: "chat_store s sid = Some h"
  have "\<exists>s'. run model xs s = Inr s' \<and> chat_store s' sid = Some h"
    using h by (rule run_invariant) (rule step_chat_store)
  then show "\<exists>s'. run model xs s = Inr s' \<and> chat_store s' sid = Some h \<and>
         get_chat_history sid s' = Inr (h, s')"
    by (auto simp: get_chat_history_eq)
next
  fix h
  assume "chat_store s sid = Some h"
  then show "\<exists>r s'. chat model input sid s = Inr (r, s') \<and> get_chat_history sid s' = Inr (h, s') \<and>
         histories s' h = histories s h @ [HumanMessage input, AIMessage r]"
    by (simp add: step_defs Let_def)
qed

theorem session_creation_idempotent_witness:
  "chat_store (initial_state\<lparr>chat_store := [str_of ''user_123'' \<mapsto> 0], next_ref := Suc 0\<rparr>)
     (str_of ''user_123'') = Some 0 \<and>
   (\<exists>s'. run (\<lambda>m h i. str_of ''ok'')
      [Chat (str_of ''Hello! My name is Alice.'') (str_of ''user_123''),
       GetChatHistory (str_of ''user_456''),
       UpdateLongTermMemory (str_of ''user_123'') (str_of ''Do you remember my name?'') [],
       GetChatHistory (str_of ''user_123'')]
      (initial_state\<lparr>chat_store := [str_of ''user_123'' \<mapsto> 0], next_ref := Suc 0\<rparr>) = Inr s' \<and>
      chat_store s' (str_of ''user_123'') = Some 0 \<and>
      get_chat_history (str_of ''user_123'') s' = Inr (0, s'))"
proof -
  have k: "chat_store (initial_state\<lparr>chat_store := [str_of ''user_123'' \<mapsto> 0], next_ref := Suc 0\<rparr>)
     (str_of ''user_123'') = Some 0"
    by simp
  with session_creation_idempotent [of "str_of ''user_123''"
      "initial_state\<lparr>chat_store := [str_of ''user_123'' \<mapsto> 0], next_ref := Suc 0\<rparr>"
      "\<lambda>m h i. str_of ''ok''"
      "[Chat (str_of ''Hello! My name is Alice.'') (str_of ''user_123''),
       GetChatHistory (str_of ''user_456''),
       UpdateLongTermMemory (str_of ''user_123'') (str_of ''Do you remember my name?'') [],
       GetChatHistory (str_of ''user_123'')]"]
  show ?thesis by blast
qed

section \<open>The capacity bound\<close>

text \<open>
  C6. Every long-term list holds at most five facts: this holds in the initial state, is
  preserved by each operation and by every sequence of operations (none of which fails),
  so it holds after every sequence run from the initial state; and after
  \<open>update_long_term_memory\<close> the list of its session has at most five facts whatever
  the state was before.
\<close>

theorem capacity_bound_invariant:
  "capacity_ok initial_state \<and>
   (capacity_ok s \<longrightarrow> (\<exists>s'. step model x s = Inr s' \<and> capacity_ok s')) \<and>
   (capacity_ok s \<longrightarrow> (\<exists>s'. run model xs s = Inr s' \<and> capacity_ok s')) \<and>
   (\<exists>s'. run model xs initial_state = Inr s' \<and> capacity_ok s') \<and>
   (\<exists>s'. update_long_term_memory sid input out s = Inr s' \<and>
      (\<exists>ys. long_term_memory s' sid = Some ys \<and> length ys \<le> 5))"
proof (intro conjI impI)
  show "capacity_ok initial_state" by (rule capacity_ok_initial)
next
  assume "capacity_ok s"
  then show "\<exists>s'. step model x s = Inr s' \<and> capacity_ok s'"
    using step_total [of model x s] by (auto dest: step_capacity_ok)
next
  assume "capacity_ok s"
  then show "\<exists>s'. run model xs s = Inr s' \<and> capacity_ok s'"
    by (rule run_invariant) (rule step_capacity_ok)
next
  show "\<exists>s'. run model xs initial_state = Inr s' \<and> capacity_ok s'"
    using capacity_ok_initial by (rule run_invariant) (rule step_capacity_ok)
next
  show "\<exists>s'. update_long_term_memory sid input out s = Inr s' \<and>
      (\<exists>ys. long_term_memory s' sid = Some ys \<and> length ys \<le> 5)"
    by (simp add: update_long_term_memory_eq slice_from_neg5)
qed

theorem capacity_bound_invariant_witness:
  "capacity_ok (initial_state\<lparr>long_term_memory :=
      [str_of ''user_123'' \<mapsto> [str_of ''f1'', str_of ''f2'', str_of ''f3'', str_of ''f4'', str_of ''f5'']]\<rparr>) \<and>
   (\<exists>s'. run (\<lambda>m h i. str_of ''ok'')
      [Chat (str_of ''Hello! My name is Alice.'') (str_of ''user_123''),
       UpdateLongTermMemory (str_of ''user_123'') (str_of ''Do you remember my name?'') []]
      (initial_state\<lparr>long_term_memory :=
         [str_of ''user_123'' \<mapsto> [str_of ''f1'', str_of ''f2'', str_of ''f3'', str_of ''f4'', str_of ''f5'']]\<rparr>)
      = Inr s' \<and> capacity_ok s')"
proof -
  have c: "capacity_ok (initial_state\<lparr>long_term_memory :=
      [str_of ''user_123'' \<mapsto> [str_of ''f1'', str_of ''f2'', str_of ''f3'', str_of ''f4'', str_of ''f5'']]\<rparr>)"
    by (simp add: capacity_ok_def initial_state_def)
  with capacity_bound_invariant [of "initial_state\<lparr>long_term_memory :=
      [str_of ''user_123'' \<mapsto> [str_of ''f1'', str_of ''f2'', str_of ''f3'', str_of ''f4'', str_of ''f5'']]\<rparr>"
      "\<lambda>m h i. str_of ''ok''" _
      "[Chat (str_of ''Hello! My name is Alice.'') (str_of ''user_123''),
       UpdateLongTermMemory (str_of ''user_123'') (str_of ''Do you remember my name?'') []]"]
  show ?thesis by blast
qed

section \<open>Isolation between sessions\<close>

text \<open>
  C7. References are well formed in the initial state and after every sequence of
  operations. From a well-formed state, a sequence of operations none of which is invoked
  with session id \<open>B\<close> leaves the handle registered for \<open>B\<close>, the messages of
  its history, its long-term list and its rendered long-term memory unchanged.
\<close>

theorem cross_session_isolation:
  "wf_sessions initial_state \<and>
   (wf_sessions s \<longrightarrow> (\<exists>s'. run model xs s = Inr s' \<and> wf_sessions s')) \<and>
   (wf_sessions s \<and> (\<forall>x \<in> set xs. op_session x \<noteq> B) \<longrightarrow>
      (\<exists>s'. run model xs s = Inr s' \<and>
         chat_store s' B = chat_store s B \<and>
         (\<forall>h. chat_store s B = Some h \<longrightarrow> histories s' h = histories s h) \<and>
         long_term_memory s' B = long_term_memory s B \<and>
         (\<exists>r. get_long_term_memory B s = Inr (r, s) \<and> get_long_term_memory B s' = Inr (r, s'))))"
proof (intro conjI impI)
  show "wf_sessions initial_state" by (rule wf_sessions_initial)
next
  assume "wf_sessions s"
  then show "\<exists>s'. run model xs s = Inr s' \<and> wf_sessions s'"
    by (rule run_invariant) (rule step_wf)
next
  assume a: "wf_sessions s \<and> (\<forall>x \<in> set xs. op_session x \<noteq> B)"
  let ?P = "\<lambda>t. wf_sessions t \<and> chat_store t B = chat_store s B \<and>
      long_term_memory t B = long_term_memory s B \<and>
      (\<forall>h. chat_store s B = Some h \<longrightarrow> histories t h = histories s h)"
  have "\<exists>s'. run model xs s = Inr s' \<and> ?P s'"
  proof (rule run_invariant)
    show "?P s" using a by simp
  next
    fix x t t'
    assume x: "x \<in> set xs" and t: "?P t" and st: "step model x t = Inr t'"
    from a x have "op_session x \<noteq> B" by blast
    with t st have "chat_store t' B = chat_store t B \<and>
        long_term_memory t' B = long_term_memory t B \<and>
        (\<forall>h. chat_store t B = Some h \<longrightarrow> histories t' h = histories t h)"
      using step_frame [of t x B model t'] by blast
    moreover from t st have "wf_sessions t'" by (blast intro: step_wf)
    ultimately show "?P t'" using t by simp
  qed
  then obtain s' where r: "run model xs s = Inr s'" and p: "?P s'" by blast
  from p have "stored_facts s' B = stored_facts s B"
    by (simp add: stored_facts_def)
  then have "\<exists>r. get_long_term_memory B s = Inr (r, s) \<and> get_long_term_memory B s' = Inr (r, s')"
    by (simp add: get_long_term_memory_eq)
  with r p show "\<exists>s'. run model xs s = Inr s' \<and>
         chat_store s' B = chat_store s B \<and>
         (\<forall>h. chat_store s B = Some h \<longrightarrow> histories s' h = histories s h) \<and>
         long_term_memory s' B = long_term_memory s B \<and>
         (\<exists>r. get_long_term_memory B s = Inr (r, s) \<and> get_long_term_memory B s' = Inr (r, s'))"
    by blast
qed

theorem cross_session_isolation_witness:
  "wf_sessions session_b_state \<and>
   op_session (GetChatHistory (str_of ''A'')) \<noteq> str_of ''B'' \<and>
   op_session (Chat (str_of ''A secret only session A knows'') (str_of ''A'')) \<noteq> str_of ''B'' \<and>
   op_session (GetLongTermMemory (str_of ''A'')) \<noteq> str_of ''B'' \<and>
   (\<exists>s'. run (\<lambda>m h i. str_of ''ok'')
      [GetChatHistory (str_of ''A''),
       Chat (str_of ''A secret only session A knows'') (str_of ''A''),
       GetLongTermMemory (str_of ''A'')] session_b_state = Inr s' \<and>
      chat_store s' (str_of ''B'') = Some 0 \<and>
      histories s' 0 = [HumanMessage (str_of ''Hello! My name is Bob B.''),
                        AIMessage (str_of ''Hello, Bob!'')] \<and>
      long_term_memory s' (str_of ''B'') = Some [str_of ''User said: Hello! My name is Bob B.''] \<and>
      get_long_term_memory (str_of ''B'') s' = Inr (str_of ''User said: Hello! My name is Bob B.'', s'))"
proof -
  have ne: "str_of ''A'' \<noteq> str_of ''B''"
    by (simp add: str_of_def)
  have wf: "wf_sessions session_b_state"
    by (auto simp: wf_sessions_def session_b_state_def split: if_splits)
  have ops: "\<forall>x \<in> set [GetChatHistory (str_of ''A''),
       Chat (str_of ''A secret only session A knows'') (str_of ''A''),
       GetLongTermMemory (str_of ''A'')]. op_session x \<noteq> str_of ''B''"
    using ne by simp
  have b: "chat_store session_b_state (str_of ''B'') = Some 0"
    "histories session_b_state 0 = [HumanMessage (str_of ''Hello! My name is Bob B.''),
                        AIMessage (str_of ''Hello, Bob!'')]"
    "long_term_memory session_b_state (str_of ''B'') = Some [str_of ''User said: Hello! My name is Bob B.'']"
    "get_long_term_memory (str_of ''B'') session_b_state = Inr (str_of ''User said: Hello! My name is Bob B.'', session_b_state)"
    by (simp_all add: session_b_state_def get_long_term_memory_def)
  from cross_session_isolation [of session_b_state "\<lambda>m h i. str_of ''ok''"
      "[GetChatHistory (str_of ''A''),
       Chat (str_of ''A secret only session A knows'') (str_of ''A''),
       GetLongTermMemory (str_of ''A'')]" "str_of ''B''"] wf ops
  obtain s' where "run (\<lambda>m h i. str_of ''ok'')
      [GetChatHistory (str_of ''A''),
       Chat (str_of ''A secret only session A knows'') (str_of ''A''),
       GetLongTermMemory (str_of ''A'')] session_b_state = Inr s'"
    and "chat_store s' (str_of ''B'') = chat_store session_b_state (str_of ''B'')"
    and "\<forall>h. chat_store session_b_state (str_of ''B'') = Some h \<longrightarrow> histories s' h = histories session_b_state h"
    and "long_term_memory s' (str_of ''B'') = long_term_memory session_b_state (str_of ''B'')"
    and "\<exists>r. get_long_term_memory (str_of ''B'') session_b_state = Inr (r, session_b_state) \<and>
           get_long_term_memory (str_of ''B'') s' = Inr (r, s')"
    by blast
  with b have "run (\<lambda>m h i. str_of ''ok'')
      [GetChatHistory (str_of ''A''),
       Chat (str_of ''A secret only session A knows'') (str_of ''A''),
       GetLongTermMemory (str_of ''A'')] session_b_state = Inr s' \<and>
      chat_store s' (str_of ''B'') = Some 0 \<and>
      histories s' 0 = [HumanMessage (str_of ''Hello! My name is Bob B.''),
                        AIMessage (str_of ''Hello, Bob!'')] \<and>
      long_term_memory s' (str_of ''B'') = Some [str_of ''User said: Hello! My name is Bob B.''] \<and>
      get_long_term_memory (str_of ''B'') s' = Inr (str_of ''User said: Hello! My name is Bob B.'', s')"
    by auto
  with wf ne show ?thesis by auto
qed

section \<open>A rejected candidate\<close>

text \<open>
  C8, as stated, fails on the code: on a session id with no long-term entry a rejected
  input does change the state, since the entry is created with an empty list before the
  length test.
\<close>

theorem rejected_candidate_creates_entry:
  "update_long_term_memory (str_of ''user_123'') (str_of ''I love sunny days.'')
     (str_of ''Sunny days are wonderful!'') initial_state =
     Inr (initial_state\<lparr>long_term_memory := [str_of ''user_123'' \<mapsto> []]\<rparr>) \<and>
   initial_state\<lparr>long_term_memory := [str_of ''user_123'' \<mapsto> []]\<rparr> \<noteq> initial_state"
proof -
  have "long_term_memory (initial_state\<lparr>long_term_memory := [str_of ''user_123'' \<mapsto> []]\<rparr>)
      (str_of ''user_123'') \<noteq> long_term_memory initial_state (str_of ''user_123'')"
    by (simp add: initial_state_def)
  then have "initial_state\<lparr>long_term_memory := [str_of ''user_123'' \<mapsto> []]\<rparr> \<noteq> initial_state"
    by metis
  moreover have "long_term_memory initial_state = Map.empty"
    by (simp add: initial_state_def)
  ultimately show ?thesis
    by (simp add: update_long_term_memory_eq length_str_of stored_facts_initial
        slice_from_neg5)
qed

text \<open>
  C8, amended. In a state within capacity, \<open>update_long_term_memory\<close> with a
  candidate of at most 20 characters completes without error; the facts of the session and
  its rendered long-term memory are unchanged, and so is everything else in the state,
  except that a session id with no long-term entry gets an entry with the empty list. For
  a session id that has an entry the state is unchanged.
\<close>

theorem rejected_candidate_effect:
  "length candidate \<le> 20 \<and> capacity_ok s \<longrightarrow>
     (\<exists>s'. update_long_term_memory sid candidate out s = Inr s' \<and>
        s' = s\<lparr>long_term_memory := (long_term_memory s)(sid \<mapsto> stored_facts s sid)\<rparr> \<and>
        stored_facts s' sid = stored_facts s sid \<and>
        (\<exists>r. get_long_term_memory sid s = Inr (r, s) \<and> get_long_term_memory sid s' = Inr (r, s')) \<and>
        (long_term_memory s sid \<noteq> None \<longrightarrow> s' = s) \<and>
        (long_term_memory s sid = None \<longrightarrow> long_term_memory s' sid = Some []))"
proof (intro impI)
  assume a: "length candidate \<le> 20 \<and> capacity_ok s"
  then have "length (stored_facts s sid) \<le> 5"
    by (auto simp: capacity_ok_def stored_facts_def split: option.splits)
  then have keep: "slice_from (- 5) (stored_facts s sid) = stored_facts s sid"
    by (rule slice_from_neg5_short)
  let ?s' = "s\<lparr>long_term_memory := (long_term_memory s)(sid \<mapsto> stored_facts s sid)\<rparr>"
  from a keep have u: "update_long_term_memory sid candidate out s = Inr ?s'"
    by (simp add: update_long_term_memory_eq)
  have same: "long_term_memory s sid \<noteq> None \<longrightarrow> ?s' = s"
    by (auto simp: stored_facts_def map_upd_triv)
  have new: "long_term_memory s sid = None \<longrightarrow> long_term_memory ?s' sid = Some []"
    by (simp add: stored_facts_def)
  have r: "\<exists>r. get_long_term_memory sid s = Inr (r, s) \<and> get_long_term_memory sid ?s' = Inr (r, ?s')"
    by (simp add: get_long_term_memory_eq)
  from u same new r show "\<exists>s'. update_long_term_memory sid candidate out s = Inr s' \<and>
        s' = s\<lparr>long_term_memory := (long_term_memory s)(sid \<mapsto> stored_facts s sid)\<rparr> \<and>
        stored_facts s' sid = stored_facts s sid \<and>
        (\<exists>r. get_long_term_memory sid s = Inr (r, s) \<and> get_long_term_memory sid s' = Inr (r, s')) \<and>
        (long_term_memory s sid \<noteq> None \<longrightarrow> s' = s) \<and>
        (long_term_memory s sid = None \<longrightarrow> long_term_memory s' sid = Some [])"
    by simp
qed

theorem rejected_candidate_effect_witness:
  "length (str_of ''Hi B'') \<le> 20 \<and> capacity_ok session_b_state \<and>
   long_term_memory session_b_state (str_of ''B'') \<noteq> None \<and>
   update_long_term_memory (str_of ''B'') (str_of ''Hi B'') (str_of ''Hi!'') session_b_state =
     Inr session_b_state"
proof -
  have l: "length (str_of ''Hi B'') \<le> 20" by (simp add: length_str_of)
  have c: "capacity_ok session_b_state"
    by (simp add: capacity_ok_def session_b_state_def)
  have k: "long_term_memory session_b_state (str_of ''B'') \<noteq> None"
    by (simp add: session_b_state_def)
  from rejected_candidate_effect [of "str_of ''Hi B''" session_b_state "str_of ''B''" "str_of ''Hi!''"]
    l c k
  have "update_long_term_memory (str_of ''B'') (str_of ''Hi B'') (str_of ''Hi!'') session_b_state =
     Inr session_b_state"
    by auto
  with l c k show ?thesis by blast
qed

section \<open>The response does not influence long-term memory\<close>

text \<open>
  C9. \<open>update_long_term_memory\<close> gives the same result for any two outputs: the
  new list is built from the old facts and the input alone. Hence \<open>chat\<close> with any
  two language models leaves the same long-term memory.
\<close>

theorem response_noninterference:
  "update_long_term_memory sid input o1 s = update_long_term_memory sid input o2 s \<and>
   update_long_term_memory sid input o1 s =
     Inr (s\<lparr>long_term_memory := (long_term_memory s)
            (sid \<mapsto> slice_from (- 5)
               (stored_facts s sid @ (if 20 < length input then [user_said input] else [])))\<rparr>) \<and>
   (\<exists>r1 s1 r2 s2. chat m1 input sid s = Inr (r1, s1) \<and> chat m2 input sid s = Inr (r2, s2) \<and>
      long_term_memory s1 = long_term_memory s2)"
  by (simp add: step_defs Let_def stored_facts_def split: option.splits)

theorem response_noninterference_witness:
  "update_long_term_memory (str_of ''user_123'') (str_of ''Hello! My name is Alice.'')
     (str_of ''Hello, Alice!'') initial_state =
   update_long_term_memory (str_of ''user_123'') (str_of ''Hello! My name is Alice.'')
     (str_of ''A completely different and much longer reply'') initial_state"
  using response_noninterference [of "str_of ''user_123''" "str_of ''Hello! My name is Alice.''"
      "str_of ''Hello, Alice!''" initial_state
      "str_of ''A completely different and much longer reply''"]
  by blast

section \<open>Reading long-term memory\<close>

text \<open>
  C10. \<open>get_long_term_memory\<close> returns the state it was given, for every session
  id, and for an id with no long-term entry it returns the empty string (no entry is
  created, the state being the same). \<open>get_chat_history\<close> on an unseen id, by
  contrast, returns a changed state in which the id is registered with an empty history.
\<close>

theorem get_long_term_memory_read_only:
  "(\<exists>r. get_long_term_memory sid s = Inr (r, s)) \<and>
   step model (GetLongTermMemory sid) s = Inr s \<and>
   (long_term_memory s sid = None \<longrightarrow> get_long_term_memory sid s = Inr ([], s)) \<and>
   (chat_store s sid = None \<longrightarrow>
      (\<exists>h s'. get_chat_history sid s = Inr (h, s') \<and> chat_store s' sid = Some h \<and>
         histories s' h = [] \<and> s' \<noteq> s))"
proof (intro conjI impI)
  assume n: "chat_store s sid = None"
  let ?s' = "s\<lparr>chat_store := (chat_store s)(sid \<mapsto> next_ref s),
               histories := (histories s)(next_ref s := []),
               next_ref := Suc (next_ref s)\<rparr>"
  have "next_ref ?s' \<noteq> next_ref s" by simp
  then have "?s' \<noteq> s" by metis
  with n show "\<exists>h s'. get_chat_history sid s = Inr (h, s') \<and> chat_store s' sid = Some h \<and>
         histories s' h = [] \<and> s' \<noteq> s"
    by (simp add: get_chat_history_eq)
qed (simp_all add: get_long_term_memory_def and_then_def)

theorem get_long_term_memory_read_only_witness:
  "long_term_memory initial_state (str_of ''user_123'') = None \<and>
   get_long_term_memory (str_of ''user_123'') initial_state = Inr ([], initial_state) \<and>
   chat_store initial_state (str_of ''user_123'') = None \<and>
   (\<exists>h s'. get_chat_history (str_of ''user_123'') initial_state = Inr (h, s') \<and>
      chat_store s' (str_of ''user_123'') = Some h \<and> histories s' h = [] \<and> s' \<noteq> initial_state)"
proof -
  have n: "long_term_memory initial_state (str_of ''user_123'') = None"
    "chat_store initial_state (str_of ''user_123'') = None"
    by (simp_all add: initial_state_def)
  with get_long_term_memory_read_only [of "str_of ''user_123''" initial_state]
  show ?thesis by blast
qed

end
